theory Spec2Isabelle
  imports Complex_Main "HOL-Library.Sublist"
begin

section \<open>Data model\<close>

text \<open>
  Optional string fields of the TypeScript interfaces are \<open>string option\<close>, with
  \<open>None\<close> for \<open>undefined\<close>. JavaScript treats \<open>undefined\<close> and the empty
  string as falsy and every other string as truthy.
\<close>

fun truthy :: "string option \<Rightarrow> bool" where
  "truthy None = False"
| "truthy (Some s) = (s \<noteq> [])"

text \<open>
  \<open>SearXNGSearchResult\<close> and \<open>SearXNGSearchResponse\<close> of the search service. The
  fields of a result carry the prefix \<open>r_\<close>, since a formatted page has a
  \<open>url\<close>, a \<open>title\<close> and a \<open>content\<close> of its own.
\<close>

record SearXNGSearchResult =
  r_url :: string
  r_title :: string
  r_content :: string
  r_engine :: string
  r_category :: string

record SearXNGSearchResponse =
  response_query :: string
  number_of_results :: nat
  results :: "SearXNGSearchResult list"
  answers :: "string list"
  corrections :: "string list"
  suggestions :: "string list"
  unresponsive_engines :: "string list"

section \<open>The upstream search client: \<open>SearXNGSearchService.search\<close>\<close>

text \<open>
  What one \<open>axios.get\<close> can come back with: an HTTP status with a body, or no
  response at all (a network error). The body is a JSON object from which the
  response class can be built, an object whose fields cannot be read (the constructor
  throws), or a value that is falsy or not of type object.
\<close>

datatype http_body =
    JsonObject SearXNGSearchResponse
  | UnreadableObject
  | NotAnObject

datatype attempt_outcome =
    Responded nat http_body
  | NetworkError

text \<open>
  The errors that travel through the \<open>try\<close> blocks of the client: the error axios
  throws (with \<open>err.response.status\<close> when the server answered), and the client's
  own \<open>DownstreamServiceFailureError\<close> with its message.
\<close>

datatype client_error =
    AxiosError "nat option"
  | DownstreamServiceFailureError string

text \<open>\<open>validateStatus: (status) => status >= 200 && status < 300\<close>\<close>

definition validateStatus :: "nat \<Rightarrow> bool" where
  "validateStatus status \<longleftrightarrow> 200 \<le> status \<and> status < 300"

text \<open>The body of the outer \<open>try\<close>: the request, the check of the body, the parse.\<close>

fun attempt :: "attempt_outcome \<Rightarrow> client_error + SearXNGSearchResponse" where
  "attempt NetworkError = Inl (AxiosError None)"
| "attempt (Responded status body) =
     (if \<not> validateStatus status then Inl (AxiosError (Some status))
      else case body of
          NotAnObject \<Rightarrow>
            Inl (DownstreamServiceFailureError ''Invalid response format from search service'')
        | UnreadableObject \<Rightarrow>
            Inl (DownstreamServiceFailureError ''Failed to parse search response'')
        | JsonObject r \<Rightarrow> Inr r)"

text \<open>\<open>err?.response?.status === 429\<close>\<close>

fun status429 :: "client_error \<Rightarrow> bool" where
  "status429 (AxiosError (Some status)) = (status = 429)"
| "status429 _ = False"

text \<open>
  A run of the client: what it returned or threw, how many requests it made, and the
  sleeps it took, in milliseconds. The upstream is a function from the number of the
  attempt (from 0) to its outcome, and \<open>rnd i\<close> is the value \<open>Math.random()\<close> gives
  in attempt \<open>i\<close>.
\<close>

record client_run =
  outcome :: "client_error + SearXNGSearchResponse"
  attempts :: nat
  sleeps :: "rat list"

text \<open>
  \<open>while (maxTries--) { try { ... } catch (err) { ... } }\<close> followed by the final
  \<open>throw\<close>. The first argument is \<open>maxTries\<close>, the second the number of requests
  made so far.
\<close>

fun search_loop ::
  "nat \<Rightarrow> nat \<Rightarrow> (nat \<Rightarrow> attempt_outcome) \<Rightarrow> (nat \<Rightarrow> rat) \<Rightarrow> rat list \<Rightarrow> client_run" where
  "search_loop 0 i upstream rnd sl =
     \<lparr>outcome = Inl (DownstreamServiceFailureError ''Search failed''), attempts = i, sleeps = sl\<rparr>"
| "search_loop (Suc maxTries) i upstream rnd sl =
     (case attempt (upstream i) of
        Inr r \<Rightarrow> \<lparr>outcome = Inr r, attempts = Suc i, sleeps = sl\<rparr>
      | Inl err \<Rightarrow>
          if status429 err
          then search_loop maxTries (Suc i) upstream rnd (sl @ [500 + 1000 * rnd i])
          else \<lparr>outcome = Inl (DownstreamServiceFailureError ''Search failed''),
                attempts = Suc i, sleeps = sl\<rparr>)"

definition search :: "(nat \<Rightarrow> attempt_outcome) \<Rightarrow> (nat \<Rightarrow> rat) \<Rightarrow> client_run" where
  "search upstream rnd = search_loop 5 0 upstream rnd []"

text \<open>The attempt failed with HTTP 429.\<close>

definition failed429 :: "attempt_outcome \<Rightarrow> bool" where
  "failed429 out \<longleftrightarrow> (case attempt out of Inl err \<Rightarrow> status429 err | Inr _ \<Rightarrow> False)"

text \<open>The attempt succeeded: a 2xx status with a readable JSON object.\<close>

definition succeeded :: "attempt_outcome \<Rightarrow> bool" where
  "succeeded out \<longleftrightarrow> (case attempt out of Inl _ \<Rightarrow> False | Inr _ \<Rightarrow> True)"


section \<open>The search cache: \<open>cachedWebSearch\<close>\<close>

text \<open>
  The query object handed to \<open>cachedWebSearch\<close>. Its \<open>count\<close> field is named
  \<open>q_count\<close> here.
\<close>

record SearchQuery =
  q :: string
  q_count :: nat
  categories :: "string list"
  engines :: "string list"
  language :: "string option"

text \<open>A record of the cache collection (\<open>SearchResult\<close>); times are in milliseconds.\<close>

record SearchResult =
  queryDigest :: string
  response :: SearXNGSearchResponse
  createdAt :: int
  expireAt :: int

definition cacheRetentionMs :: int where
  "cacheRetentionMs = 1000 * 3600 * 24 * 7"

definition cacheValidMs :: int where
  "cacheValidMs = 1000 * 3600"

text \<open>
  Modelled from the spec: \<open>SearchResult.fromFirestoreQuery\<close> and the query builder of
  \<open>db/searched\<close>, which are not part of the sources at hand. The collection is a list
  of records; the query \<open>where('queryDigest', '==', d).orderBy('createdAt',
  'desc').limit(1)\<close> yields the most recent record with that digest, if there is one.
\<close>

fun mostRecent :: "SearchResult \<Rightarrow> SearchResult list \<Rightarrow> SearchResult" where
  "mostRecent e [] = e"
| "mostRecent e (x # xs) = mostRecent (if createdAt e < createdAt x then x else e) xs"

definition fromFirestoreQuery :: "SearchResult list \<Rightarrow> string \<Rightarrow> SearchResult list" where
  "fromFirestoreQuery collection digest =
     (case filter (\<lambda>e. queryDigest e = digest) collection of
        [] \<Rightarrow> []
      | e # es \<Rightarrow> [mostRecent e es])"

text \<open>
  The body of the \<open>try\<close> block up to the merged response \<open>r\<close>: the first page, the
  second page when the first has fewer results than \<open>query.count\<close>, the results
  cut to \<open>query.count\<close>. The search service is a function from the page number to
  what the call returns or throws. The second component lists the pages requested.
\<close>

definition fetchPages ::
  "(nat \<Rightarrow> 'e + SearXNGSearchResponse) \<Rightarrow> SearchQuery \<Rightarrow> ('e + SearXNGSearchResponse) \<times> nat list" where
  "fetchPages service query =
     (case service 1 of
        Inl err \<Rightarrow> (Inl err, [1])
      | Inr firstResponse \<Rightarrow>
          if length (results firstResponse) < q_count query
          then (case service 2 of
                  Inl err \<Rightarrow> (Inl err, [1, 2])
                | Inr secondResponse \<Rightarrow>
                    (Inr (firstResponse\<lparr>results :=
                       take (q_count query) (results firstResponse @ results secondResponse)\<rparr>),
                     [1, 2]))
          else (Inr (firstResponse\<lparr>results := take (q_count query) (results firstResponse)\<rparr>),
                [1]))"

text \<open>
  A call of \<open>cachedWebSearch\<close>: what it returns or throws, the pages it asked the
  search service for, and the records it handed to \<open>SearchResult.save\<close>.
\<close>

record 'e cached_run =
  returned :: "'e + SearXNGSearchResponse"
  upstreamCalls :: "nat list"
  saved :: "SearchResult list"

text \<open>\<open>cache.createdAt.valueOf() < (Date.now() - this.cacheValidMs)\<close>\<close>

definition stale :: "int \<Rightarrow> SearchResult \<Rightarrow> bool" where
  "stale now cache \<longleftrightarrow> createdAt cache < now - cacheValidMs"

text \<open>
  \<open>cachedWebSearch\<close>. \<open>objHashMd5B64Of\<close> is the digest function of the library,
  \<open>now\<close> the clock at the lookup and \<open>nowDate\<close> the clock when the new record is
  made. The sleep between the two pages has no part in the result and is left out.
\<close>

definition cachedWebSearch ::
  "SearchResult list \<Rightarrow> (SearchQuery \<Rightarrow> string) \<Rightarrow> int \<Rightarrow> int \<Rightarrow>
   (nat \<Rightarrow> 'e + SearXNGSearchResponse) \<Rightarrow> SearchQuery \<Rightarrow> bool \<Rightarrow> 'e cached_run" where
  "cachedWebSearch collection objHashMd5B64Of now nowDate service query noCache =
     (let digest = objHashMd5B64Of query;
          cache = (if \<not> noCache
                   then (case fromFirestoreQuery collection digest of
                           [] \<Rightarrow> None | c # _ \<Rightarrow> Some c)
                   else None);
          upstream =
            (case fetchPages service query of
               (Inr r, calls) \<Rightarrow>
                 \<lparr>returned = Inr r, upstreamCalls = calls,
                  saved = [\<lparr>queryDigest = digest, response = r, createdAt = nowDate,
                            expireAt = nowDate + cacheRetentionMs\<rparr>]\<rparr>
             | (Inl err, calls) \<Rightarrow>
                 (case cache of
                    Some c \<Rightarrow> \<lparr>returned = Inr (response c), upstreamCalls = calls, saved = []\<rparr>
                  | None \<Rightarrow> \<lparr>returned = Inl err, upstreamCalls = calls, saved = []\<rparr>))
      in case cache of
           Some c \<Rightarrow>
             if \<not> stale now c
             then \<lparr>returned = Inr (response c), upstreamCalls = [], saved = []\<rparr>
             else upstream
         | None \<Rightarrow> upstream)"

text \<open>The record the lookup of \<open>cachedWebSearch\<close> finds for a query.\<close>

definition cacheFound :: "SearchResult list \<Rightarrow> string \<Rightarrow> SearchResult option" where
  "cacheFound collection digest =
     (case fromFirestoreQuery collection digest of [] \<Rightarrow> None | c # _ \<Rightarrow> Some c)"

text \<open>The upstream search fails: the first page does, or the second when it is needed.\<close>

definition upstreamFails :: "(nat \<Rightarrow> 'e + SearXNGSearchResponse) \<Rightarrow> SearchQuery \<Rightarrow> 'e \<Rightarrow> bool" where
  "upstreamFails service query err \<longleftrightarrow>
     service 1 = Inl err \<or>
     (\<exists>firstResponse \<in> (case service 1 of Inl _ \<Rightarrow> {} | Inr a \<Rightarrow> {a}).
        length (results firstResponse) < q_count query \<and> service 2 = Inl err)"


text \<open>Concrete inputs for the examples on the cache.\<close>

definition exampleQuery :: SearchQuery where
  "exampleQuery = \<lparr>q = ''isabelle'', q_count = 5, categories = [], engines = [], language = None\<rparr>"

definition exampleResponse :: SearXNGSearchResponse where
  "exampleResponse =
     \<lparr>response_query = ''isabelle'', number_of_results = 0, results = [], answers = [],
      corrections = [], suggestions = [], unresponsive_engines = []\<rparr>"

definition exampleDigest :: "SearchQuery \<Rightarrow> string" where
  "exampleDigest query = q query"

definition exampleEntry :: SearchResult where
  "exampleEntry =
     \<lparr>queryDigest = ''isabelle'', response = exampleResponse, createdAt = 0,
      expireAt = cacheRetentionMs\<rparr>"

definition failingService :: "nat \<Rightarrow> client_error + SearXNGSearchResponse" where
  "failingService pageno = Inl (DownstreamServiceFailureError ''Search failed'')"


section \<open>Formatted pages and the quality gate\<close>

text \<open>
  \<open>FormattedPage\<close>. The \<open>text\<close> field is named \<open>page_text\<close> here. The buffers,
  the image and link summaries and \<open>textRepresentation\<close> feed only the string form
  of a page and are left out.
\<close>

record FormattedPage =
  title :: "string option"
  description :: "string option"
  url :: "string option"
  content :: "string option"
  publishedTime :: "string option"
  html :: "string option"
  page_text :: "string option"
  screenshotUrl :: "string option"
  pageshotUrl :: "string option"

definition targetResultCount :: nat where
  "targetResultCount = 5"

definition reasonableDelayMs :: int where
  "reasonableDelayMs = 15000"

text \<open>
  \<open>pageQualified\<close>: \<open>title && content || screenshotUrl || pageshotUrl || text || html\<close>,
  read as a truth value.
\<close>

definition pageQualified :: "FormattedPage \<Rightarrow> bool" where
  "pageQualified formattedPage \<longleftrightarrow>
     truthy (title formattedPage) \<and> truthy (content formattedPage) \<or>
     truthy (screenshotUrl formattedPage) \<or>
     truthy (pageshotUrl formattedPage) \<or>
     truthy (page_text formattedPage) \<or>
     truthy (html formattedPage)"

text \<open>
  \<open>searchResultsQualified\<close>; the second parameter takes the default
  \<open>this.targetResultCount\<close> when it is \<open>undefined\<close>.
\<close>

definition searchResultsQualified :: "FormattedPage list \<Rightarrow> nat option \<Rightarrow> bool" where
  "searchResultsQualified rs target \<longleftrightarrow>
     list_all pageQualified rs \<and>
     (case target of None \<Rightarrow> targetResultCount | Some t \<Rightarrow> t) \<le> length rs"

section \<open>Reorganisation: \<open>reOrganizeSearchResults\<close>\<close>

text \<open>
  The accept set of \<open>reOrganizeSearchResults\<close> is a JavaScript \<open>Set\<close> of objects: it
  holds references, and two pages with equal fields are two members. A page object is
  therefore a pair of its address and its fields, and the set holds addresses.
\<close>

type_synonym 'a obj = "nat \<times> 'a"

text \<open>\<open>count || this.targetResultCount\<close>: a count that is absent or 0 gives 5.\<close>

definition effectiveTarget :: "nat option \<Rightarrow> nat" where
  "effectiveTarget count =
     (case count of None \<Rightarrow> targetResultCount
      | Some c \<Rightarrow> if c = 0 then targetResultCount else c)"

text \<open>
  The local \<open>acceptSet\<close>: the qualified pages, and the first \<open>n\<close> unqualified ones
  when \<open>n = targetResultCount - qualifiedPages.length\<close> is not negative.
\<close>

definition acceptSet :: "FormattedPage obj list \<Rightarrow> nat option \<Rightarrow> nat set" where
  "acceptSet searchResults count =
     (let (qualifiedPages, unqualifiedPages) =
            partition (\<lambda>x. pageQualified (snd x)) searchResults;
          n = int (effectiveTarget count) - int (length qualifiedPages)
      in set (map fst qualifiedPages) \<union>
         set (map fst (take (nat (if 0 \<le> n then n else 0)) unqualifiedPages)))"

text \<open>The local \<open>filtered\<close>: the accepted pages in the order of the input, cut.\<close>

definition filtered :: "FormattedPage obj list \<Rightarrow> nat option \<Rightarrow> FormattedPage obj list" where
  "filtered searchResults count =
     take (effectiveTarget count)
       (filter (\<lambda>x. fst x \<in> acceptSet searchResults count) searchResults)"

text \<open>
  The result array holds a copy \<open>{...x, toString}\<close> of every page of \<open>filtered\<close>: new
  objects with the same fields.
\<close>

definition reOrganizeSearchResults :: "FormattedPage obj list \<Rightarrow> nat option \<Rightarrow> FormattedPage list" where
  "reOrganizeSearchResults searchResults count = map snd (filtered searchResults count)"

section \<open>The search handler: \<open>search\<close>\<close>

text \<open>
  The HTTP response as far as \<open>sendResponse\<close> touches it. \<open>res.send\<close> of Express
  writes the body and the headers, after which \<open>res.headersSent\<close> is true; \<open>sent\<close>
  lists the bodies written.
\<close>

record 'b Response =
  headersSent :: bool
  statusCode :: nat
  contentTypeSet :: "string option"
  headersSet :: "(string \<times> string) list"
  sent :: "'b list"

record TransferProtocolMetadata =
  code :: "nat option"
  contentType :: "string option"
  headers :: "(string \<times> string option) list option"

definition setHeaders :: "'b Response \<Rightarrow> (string \<times> string option) list \<Rightarrow> 'b Response" where
  "setHeaders res hs =
     foldl (\<lambda>r (key, v). case v of None \<Rightarrow> r
                           | Some v' \<Rightarrow> r\<lparr>headersSet := headersSet r @ [(key, v')]\<rparr>) res hs"

text \<open>
  \<open>sendResponse\<close> of the searcher; it returns \<open>data\<close>, and this is the response it
  leaves behind.
\<close>

definition sendResponse :: "'b Response \<Rightarrow> 'b \<Rightarrow> TransferProtocolMetadata \<Rightarrow> 'b Response" where
  "sendResponse res data meta =
     (if headersSent res then res
      else
        let res1 = (case code meta of
                      None \<Rightarrow> res
                    | Some c \<Rightarrow> if c \<noteq> 0 then res\<lparr>statusCode := c\<rparr> else res);
            res2 = (if truthy (contentType meta) then res1\<lparr>contentTypeSet := contentType meta\<rparr>
                    else res1);
            res3 = (case headers meta of None \<Rightarrow> res2 | Some hs \<Rightarrow> setHeaders res2 hs)
        in res3\<lparr>sent := sent res3 @ [data], headersSent := True\<rparr>)"

text \<open>
  What is sent: the string form \<open>`${scrapped}`\<close> of a batch, taken when the call is
  made, or a fixed text.
\<close>

datatype body =
    Rendered "FormattedPage list"
  | Plain string

definition textPlain :: TransferProtocolMetadata where
  "textPlain = \<lparr>code = None, contentType = Some ''text/plain'', headers = None\<rparr>"

definition internalError :: TransferProtocolMetadata where
  "internalError = \<lparr>code = Some 500, contentType = Some ''text/plain'', headers = None\<rparr>"

text \<open>
  The handler runs on an event loop. Between two batches of the generator the timeout
  may run, so a run of \<open>search\<close> is driven by a sequence of events: the generator
  yields a batch, ends or throws (a failure before the loop counts as a throw), or the
  timeout set by \<open>setEarlyReturnTimer\<close> comes due.
\<close>

datatype event =
    Yields "FormattedPage list"
  | Ends
  | Throws
  | TimerFires

text \<open>What has become of a timeout that was set.\<close>

datatype timeout_state = Pending | Fired | Cleared

text \<open>
  The variables of \<open>search\<close>: \<open>earlyReturnTimer\<close> is \<open>None\<close> while it is
  \<open>undefined\<close> and holds the handle afterwards; \<open>setTimeoutCalls\<close> lists the delays
  handed to \<open>setTimeout\<close>; \<open>returnValue\<close> is set once \<open>search\<close> has returned.
\<close>

record search_state =
  lastScrapped :: "FormattedPage list option"
  earlyReturnTimer :: "timeout_state option"
  setTimeoutCalls :: "int list"
  res :: "body Response"
  returnValue :: "body option"

text \<open>
  \<open>timeoutMs\<close> as \<open>configure\<close> derives it from the \<open>timeout\<close> option (in seconds):
  \<open>opts.timeout ? opts.timeout * 1000 : undefined\<close>.
\<close>

definition timeoutMs :: "int option \<Rightarrow> int option" where
  "timeoutMs timeout =
     (case timeout of None \<Rightarrow> None
      | Some t \<Rightarrow> if t \<noteq> 0 then Some (t * 1000) else None)"

text \<open>\<open>((crawlerOptions.timeout || 0) * 1000) || this.reasonableDelayMs\<close>\<close>

definition earlyReturnDelay :: "int option \<Rightarrow> int" where
  "earlyReturnDelay timeout =
     (let ms = (case timeout of None \<Rightarrow> 0 | Some t \<Rightarrow> if t \<noteq> 0 then t else 0) * 1000
      in if ms \<noteq> 0 then ms else reasonableDelayMs)"

definition setEarlyReturnTimer :: "int option \<Rightarrow> search_state \<Rightarrow> search_state" where
  "setEarlyReturnTimer timeout s =
     (case earlyReturnTimer s of
        Some _ \<Rightarrow> s
      | None \<Rightarrow> s\<lparr>earlyReturnTimer := Some Pending,
                  setTimeoutCalls := setTimeoutCalls s @ [earlyReturnDelay timeout]\<rparr>)"

text \<open>\<open>if (earlyReturnTimer) { clearTimeout(earlyReturnTimer); }\<close>\<close>

definition clearEarlyReturnTimer :: "search_state \<Rightarrow> search_state" where
  "clearEarlyReturnTimer s =
     (case earlyReturnTimer s of
        Some Pending \<Rightarrow> s\<lparr>earlyReturnTimer := Some Cleared\<rparr>
      | _ \<Rightarrow> s)"

text \<open>The callback of the timeout.\<close>

definition timerCallback :: "search_state \<Rightarrow> search_state" where
  "timerCallback s =
     (case lastScrapped s of
        None \<Rightarrow> s
      | Some batch \<Rightarrow> s\<lparr>res := sendResponse (res s) (Rendered batch) textPlain\<rparr>)"

text \<open>The \<open>catch\<close> block of \<open>search\<close>.\<close>

definition catchError :: "search_state \<Rightarrow> search_state" where
  "catchError s =
     s\<lparr>res := sendResponse (res s) (Plain ''Internal server error'') internalError,
       returnValue := Some (Plain ''Internal server error'')\<rparr>"

text \<open>
  One event. A timeout runs its callback only while it is pending. Once \<open>search\<close> has
  returned, the generator is closed and only the timeout can still do something.
  \<open>count\<close> is the number the handler makes of the query parameter (between 1 and 20 for
  a whole number, 5 when the parameter is absent), \<open>timeout\<close> the option of the
  request in seconds, \<open>None\<close> when it is absent.
\<close>

fun step :: "nat \<Rightarrow> int option \<Rightarrow> search_state \<Rightarrow> event \<Rightarrow> search_state" where
  "step count timeout s TimerFires =
     (if earlyReturnTimer s = Some Pending
      then timerCallback (s\<lparr>earlyReturnTimer := Some Fired\<rparr>)
      else s)"
| "step count timeout s (Yields scrapped) =
     (if returnValue s \<noteq> None then s
      else
        let s1 = s\<lparr>lastScrapped := Some scrapped\<rparr>;
            s2 = (if list_ex pageQualified scrapped then setEarlyReturnTimer timeout s1 else s1)
        in if \<not> searchResultsQualified scrapped (Some count) then s2
           else
             let s3 = clearEarlyReturnTimer s2
             in s3\<lparr>res := sendResponse (res s3) (Rendered scrapped) textPlain,
                   returnValue := Some (Rendered scrapped)\<rparr>)"
| "step count timeout s Ends =
     (if returnValue s \<noteq> None then s
      else
        let s1 = clearEarlyReturnTimer s
        in case lastScrapped s1 of
             None \<Rightarrow> catchError s1
           | Some batch \<Rightarrow>
               s1\<lparr>res := sendResponse (res s1) (Rendered batch) textPlain,
                     returnValue := Some (Rendered batch)\<rparr>)"
| "step count timeout s Throws =
     (if returnValue s \<noteq> None then s else catchError s)"

definition freshResponse :: "body Response" where
  "freshResponse =
     \<lparr>headersSent = False, statusCode = 200, contentTypeSet = None, headersSet = [], sent = []\<rparr>"

definition initialState :: search_state where
  "initialState =
     \<lparr>lastScrapped = None, earlyReturnTimer = None, setTimeoutCalls = [],
      res = freshResponse, returnValue = None\<rparr>"

definition runFrom :: "nat \<Rightarrow> int option \<Rightarrow> search_state \<Rightarrow> event list \<Rightarrow> search_state" where
  "runFrom count timeout s events = foldl (step count timeout) s events"

definition searchRun :: "nat \<Rightarrow> int option \<Rightarrow> event list \<Rightarrow> search_state" where
  "searchRun count timeout events = runFrom count timeout initialState events"

text \<open>
  The batches the \<open>for await\<close> loop of \<open>search\<close> takes from the generator: it
  stops at the first batch that passes the gate, and when the generator ends or throws.
\<close>

fun taken :: "nat \<Rightarrow> event list \<Rightarrow> FormattedPage list list" where
  "taken count [] = []"
| "taken count (Yields scrapped # es) =
     scrapped # (if searchResultsQualified scrapped (Some count) then [] else taken count es)"
| "taken count (TimerFires # es) = taken count es"
| "taken count (Ends # es) = []"
| "taken count (Throws # es) = []"

text \<open>The response has been sent exactly when one body has been written, and never more.\<close>

definition sentOnce :: "'b Response \<Rightarrow> bool" where
  "sentOnce r \<longleftrightarrow> (if headersSent r then length (sent r) = 1 else sent r = [])"

text \<open>Concrete pages for the examples: one that is qualified and a stub that is not.\<close>

definition goodPage :: FormattedPage where
  "goodPage =
     \<lparr>title = Some ''Isabelle'', description = Some ''A proof assistant'',
      url = Some ''https://isabelle.in.tum.de/'', content = Some ''Isabelle is a proof assistant.'',
      publishedTime = None, html = None, page_text = None, screenshotUrl = None,
      pageshotUrl = None\<rparr>"

definition stubPage :: FormattedPage where
  "stubPage =
     \<lparr>title = Some ''Archive of Formal Proofs'', description = Some ''A collection of proofs'',
      url = Some ''https://www.isa-afp.org/'', content = Some [],
      publishedTime = None, html = None, page_text = None, screenshotUrl = None,
      pageshotUrl = None\<rparr>"

section \<open>The snapshot formatter: \<open>formatSnapshot\<close>\<close>

text \<open>
  \<open>PageSnapshot\<close> as far as the formatter reads it, with the prefix \<open>s_\<close> on its
  fields, and the \<open>parsed\<close> part of it with the prefix \<open>p_\<close>. The screenshots are
  byte strings.
\<close>

record ReadabilityParsed =
  p_title :: "string option"
  p_content :: "string option"
  p_publishedTime :: "string option"

record PageSnapshot =
  s_href :: "string option"
  s_title :: "string option"
  s_html :: "string option"
  s_text :: "string option"
  s_parsed :: "ReadabilityParsed option"
  s_rebase :: "string option"
  s_screenshot :: "string option"
  s_pageshot :: "string option"
  s_screenshotUrl :: "string option"
  s_pageshotUrl :: "string option"
  s_maxElemDepth :: "nat option"
  s_elemCount :: "nat option"

text \<open>\<open>snapshot.parsed?.content\<close> and its two neighbours.\<close>

definition parsedContent :: "PageSnapshot \<Rightarrow> string option" where
  "parsedContent snapshot = (case s_parsed snapshot of None \<Rightarrow> None | Some p \<Rightarrow> p_content p)"

definition parsedTitle :: "PageSnapshot \<Rightarrow> string option" where
  "parsedTitle snapshot = (case s_parsed snapshot of None \<Rightarrow> None | Some p \<Rightarrow> p_title p)"

definition parsedPublishedTime :: "PageSnapshot \<Rightarrow> string option" where
  "parsedPublishedTime snapshot =
     (case s_parsed snapshot of None \<Rightarrow> None | Some p \<Rightarrow> p_publishedTime p)"

text \<open>
  \<open>String.prototype.trim\<close>, \<open>startsWith('<')\<close> and \<open>endsWith('>')\<close>. Strings are
  byte strings here, and the white space is that of ASCII.
\<close>

definition isSpace :: "char \<Rightarrow> bool" where
  "isSpace c \<longleftrightarrow> c \<in> {CHR 0x20, CHR 0x09, CHR 0x0A, CHR 0x0B, CHR 0x0C, CHR 0x0D}"

definition trim :: "string \<Rightarrow> string" where
  "trim s = rev (dropWhile isSpace (rev (dropWhile isSpace s)))"

definition startsWithLt :: "string \<Rightarrow> bool" where
  "startsWithLt s \<longleftrightarrow> (case s of [] \<Rightarrow> False | c # _ \<Rightarrow> c = CHR ''<'')"

definition endsWithGt :: "string \<Rightarrow> bool" where
  "endsWithGt s \<longleftrightarrow> (case rev s of [] \<Rightarrow> False | c # _ \<Rightarrow> c = CHR ''>'')"

text \<open>\<open>a || b\<close> on optional strings.\<close>

definition orElse :: "string option \<Rightarrow> string option \<Rightarrow> string option" where
  "orElse a b = (if truthy a then a else b)"

text \<open>
  A Turndown service is known by the rules and plugins it was given and by the URL its
  rules resolve links against. \<open>getTurndown\<close> adds the three cleaning rules unless
  \<open>noRules\<close> is set, the rule for data URLs when \<open>imgDataUrlToObjectUrl\<close> is set, and
  the rules for paragraphs, inline links and code in every case.
\<close>

record TurndownOptions =
  noRules :: bool
  optUrl :: "string option"
  imgDataUrlToObjectUrl :: bool

record TurndownService =
  rules :: "string list"
  baseUrl :: "string option"
  plugins :: "string list"

definition getTurndown :: "TurndownOptions \<Rightarrow> TurndownService" where
  "getTurndown options =
     \<lparr>rules =
        (if \<not> noRules options then [''remove-irrelevant'', ''truncate-svg'', ''title-as-h1'']
         else []) @
        (if imgDataUrlToObjectUrl options then [''data-url-to-pseudo-object-url''] else []) @
        [''improved-paragraph'', ''improved-inline-link'', ''improved-code''],
      baseUrl = optUrl options,
      plugins = []\<rparr>"

text \<open>\<open>turnDownService.use(plugin)\<close> and \<open>turnDownService.addRule(name, ...)\<close>.\<close>

definition use :: "TurndownService \<Rightarrow> string \<Rightarrow> TurndownService" where
  "use service plugin = service\<lparr>plugins := plugins service @ [plugin]\<rparr>"

definition addRule :: "TurndownService \<Rightarrow> string \<Rightarrow> TurndownService" where
  "addRule service name = service\<lparr>rules := rules service @ [name]\<rparr>"

text \<open>
  What \<open>runTurndown\<close> is given: the element \<open>snippetToElement\<close> builds from a snippet
  and the page's address, or a string of HTML.
\<close>

datatype TurndownInput =
    Element "string option" "string option"
  | Html "string option"

type_synonym TurndownCall = "TurndownService \<times> TurndownInput"

text \<open>
  The rewriter itself (the Turndown library behind \<open>jsdomControl.runTurndown\<close>) is a
  parameter: from the calls made so far in this \<open>formatSnapshot\<close> (the image counter
  of the \<open>img-generated-alt\<close> rule lives across them) and the call at hand to the
  Markdown, or \<open>None\<close> when it throws.
\<close>

type_synonym Rewriter = "TurndownCall list \<Rightarrow> TurndownCall \<Rightarrow> string option"

text \<open>
  What a call of \<open>formatSnapshot\<close> takes from its surroundings: the \<open>host\<close> and
  \<open>keepImgDataUrl\<close> entries of the request context, the value of \<open>randomUUID()\<close>,
  and whether \<open>saveFileLocally\<close> throws.
\<close>

record FormatEnv =
  host :: "string option"
  keepImgDataUrl :: bool
  randomUUID :: string
  saveFails :: bool

datatype format_error = SaveFileError | TurndownError

text \<open>The state of the Markdown path: \<open>contentText\<close> and the calls of the rewriter.\<close>

record md_state =
  contentText :: "string option"
  calls :: "TurndownCall list"

text \<open>One \<open>runTurndown\<close>: its result, and the call added to the record.\<close>

definition runTurndown ::
  "Rewriter \<Rightarrow> TurndownCall list \<Rightarrow> TurndownService \<Rightarrow> TurndownInput \<Rightarrow> string option \<times> TurndownCall list" where
  "runTurndown rw cs service input = (rw cs (service, input), cs @ [(service, input)])"

text \<open>
  \<open>try { contentText = run(turnDownService, input) } catch { try { contentText =
  run(vanillaTurnDownService, input) } catch { } }\<close>, where \<open>post\<close> is the \<open>.trim()\<close>
  of the first use and nothing in the second.
\<close>

definition runWithRetry ::
  "Rewriter \<Rightarrow> TurndownService \<Rightarrow> TurndownService \<Rightarrow> TurndownInput \<Rightarrow> (string \<Rightarrow> string) \<Rightarrow>
   md_state \<Rightarrow> md_state" where
  "runWithRetry rw turnDownService vanillaTurnDownService input post st =
     (case runTurndown rw (calls st) turnDownService input of
        (Some md, cs) \<Rightarrow> \<lparr>contentText = Some (post md), calls = cs\<rparr>
      | (None, cs) \<Rightarrow>
          (case runTurndown rw cs vanillaTurnDownService input of
             (Some md, cs') \<Rightarrow> \<lparr>contentText = Some (post md), calls = cs'\<rparr>
           | (None, cs') \<Rightarrow> \<lparr>contentText = contentText st, calls = cs'\<rparr>))"

text \<open>\<open>contentText.startsWith('<')\<close> and \<open>contentText.endsWith('>')\<close> on a truthy text.\<close>

definition looksLikeHtml :: "string option \<Rightarrow> bool" where
  "looksLikeHtml t \<longleftrightarrow> (case t of None \<Rightarrow> False | Some s \<Rightarrow> startsWithLt s \<and> endsWithGt s)"

definition ltOrGt :: "string option \<Rightarrow> bool" where
  "ltOrGt t \<longleftrightarrow> (case t of None \<Rightarrow> False | Some s \<Rightarrow> startsWithLt s \<or> endsWithGt s)"

text \<open>
  \<open>snapshot.maxElemDepth! > 256 || snapshot.elemCount! > 70_000\<close>; a missing number
  compares as false.
\<close>

definition tooLarge :: "PageSnapshot \<Rightarrow> bool" where
  "tooLarge snapshot \<longleftrightarrow>
     (case s_maxElemDepth snapshot of None \<Rightarrow> False | Some d \<Rightarrow> 256 < d) \<or>
     (case s_elemCount snapshot of None \<Rightarrow> False | Some n \<Rightarrow> 70000 < n)"

text \<open>
  \<open>par2.length >= 0.3 * par1.length\<close>. The lengths are integers far below
  \<open>2^53\<close>, where the product in double precision is on the same side of every integer
  as the exact \<open>3/10\<close> of the length, so the test is one on integers.
\<close>

definition readabilityDidItsJob :: "string \<Rightarrow> string \<Rightarrow> bool" where
  "readabilityDidItsJob par1 par2 \<longleftrightarrow> 3 * length par1 \<le> 10 * length par2"

text \<open>
  The services \<open>formatSnapshot\<close> asks \<open>getTurndown\<close> for, all with
  \<open>url: snapshot.rebase || nominalUrl\<close> and \<open>imgDataUrlToObjectUrl\<close> from the
  request context: with \<open>noRules\<close> absent or \<open>true\<close>.
\<close>

definition turndownFor :: "FormatEnv \<Rightarrow> PageSnapshot \<Rightarrow> string option \<Rightarrow> bool \<Rightarrow> TurndownService" where
  "turndownFor env snapshot nominalUrl nr =
     getTurndown \<lparr>noRules = nr, optUrl = orElse (s_rebase snapshot) nominalUrl,
                  imgDataUrlToObjectUrl = \<not> keepImgDataUrl env\<rparr>"

text \<open>
  The service after \<open>turnDownService.use(plugin)\<close> for the table plugin and
  \<open>addRule('img-generated-alt', ...)\<close>.
\<close>

definition withPlugins :: "TurndownService \<Rightarrow> TurndownService" where
  "withPlugins service = addRule (use service ''gfm-tables'') ''img-generated-alt''"

text \<open>\<open>jsDomElementOfHTML\<close> and \<open>jsDomElementOfParsed\<close>.\<close>

definition jsDomElementOfHTML :: "PageSnapshot \<Rightarrow> TurndownInput" where
  "jsDomElementOfHTML snapshot = Element (s_html snapshot) (s_href snapshot)"

definition jsDomElementOfParsed :: "PageSnapshot \<Rightarrow> TurndownInput" where
  "jsDomElementOfParsed snapshot = Element (parsedContent snapshot) (s_href snapshot)"

text \<open>
  The choice between the document and the parsed content: the service and the input
  of the main run, whether the input is the parsed content, and the calls made. The
  two runs for \<open>par1\<close> and \<open>par2\<close> are outside every \<open>try\<close>, so a throw of either
  is the error of \<open>formatSnapshot\<close>.
\<close>

definition chooseInput ::
  "FormatEnv \<Rightarrow> Rewriter \<Rightarrow> string \<Rightarrow> PageSnapshot \<Rightarrow> string option \<Rightarrow>
   format_error + (TurndownService \<times> TurndownInput \<times> bool \<times> TurndownCall list)" where
  "chooseInput env rw mode snapshot nominalUrl =
     (let turnDownService = turndownFor env snapshot nominalUrl False
      in if mode \<noteq> ''markdown'' \<and> truthy (parsedContent snapshot)
         then
           case runTurndown rw [] turnDownService (jsDomElementOfHTML snapshot) of
             (None, cs) \<Rightarrow> Inl TurndownError
           | (Some par1, cs) \<Rightarrow>
               (case runTurndown rw cs turnDownService (jsDomElementOfParsed snapshot) of
                  (None, cs') \<Rightarrow> Inl TurndownError
                | (Some par2, cs') \<Rightarrow>
                    if readabilityDidItsJob par1 par2
                    then Inr (turndownFor env snapshot nominalUrl True,
                              jsDomElementOfParsed snapshot, True, cs')
                    else Inr (turnDownService, jsDomElementOfHTML snapshot, False, cs'))
         else Inr (turnDownService, jsDomElementOfHTML snapshot, False, []))"

text \<open>
  The body of the \<open>do { ... } while (false)\<close> of \<open>formatSnapshot\<close>, after the test
  for \<open>pdfMode\<close>, which is the constant \<open>false\<close>. It gives the final \<open>contentText\<close>
  and the calls of the rewriter.
\<close>

definition markdownContent ::
  "FormatEnv \<Rightarrow> Rewriter \<Rightarrow> string \<Rightarrow> PageSnapshot \<Rightarrow> string option \<Rightarrow> format_error + md_state" where
  "markdownContent env rw mode snapshot nominalUrl =
     (if tooLarge snapshot then Inr \<lparr>contentText = s_text snapshot, calls = []\<rparr>
      else
        case chooseInput env rw mode snapshot nominalUrl of
          Inl err \<Rightarrow> Inl err
        | Inr (service, toBeTurnedToMd, fromParsed, cs) \<Rightarrow>
            let turnDownService = withPlugins service;
                vanillaTurnDownService = turndownFor env snapshot nominalUrl False;
                st1 = runWithRetry rw turnDownService vanillaTurnDownService toBeTurnedToMd trim
                        \<lparr>contentText = Some [], calls = cs\<rparr>;
                st2 = (if \<not> truthy (contentText st1) \<or>
                          looksLikeHtml (contentText st1) \<and> fromParsed
                       then runWithRetry rw turnDownService vanillaTurnDownService
                              (Html (s_html snapshot)) (\<lambda>md. md) st1
                       else st1)
            in Inr (if \<not> truthy (contentText st2) \<or> ltOrGt (contentText st2)
                    then st2\<lparr>contentText := s_text snapshot\<rparr>
                    else st2))"

text \<open>A formatted page with no field set.\<close>

definition emptyPage :: FormattedPage where
  "emptyPage =
     \<lparr>title = None, description = None, url = None, content = None, publishedTime = None,
      html = None, page_text = None, screenshotUrl = None, pageshotUrl = None\<rparr>"

text \<open>The URL of a file saved under \<open>instant-screenshots\<close>.\<close>

definition instantUrl :: "FormatEnv \<Rightarrow> string \<Rightarrow> string" where
  "instantUrl env kind =
     ''http://'' @ (case orElse (host env) (Some ''192.168.178.100:1337'') of
                      None \<Rightarrow> [] | Some h \<Rightarrow> h)
       @ ''/instant-screenshots/'' @ kind @ ''-'' @ randomUUID env @ ''.png''"

text \<open>
  A call of \<open>formatSnapshot\<close>: the page it resolves to or the error it rejects with,
  and the calls of the rewriter it made. \<open>nominalUrl\<close> is the string form of the URL
  object, if one is given.
\<close>

record format_run =
  formatted :: "format_error + FormattedPage"
  turndownCalls :: "TurndownCall list"

definition formatSnapshot ::
  "FormatEnv \<Rightarrow> Rewriter \<Rightarrow> string \<Rightarrow> PageSnapshot \<Rightarrow> string option \<Rightarrow> format_run" where
  "formatSnapshot env rw mode snapshot nominalUrl =
     (if mode = ''screenshot'' then
        (if s_screenshot snapshot \<noteq> None \<and> \<not> truthy (s_screenshotUrl snapshot)
         then (if saveFails env then \<lparr>formatted = Inl SaveFileError, turndownCalls = []\<rparr>
               else \<lparr>formatted = Inr (emptyPage\<lparr>screenshotUrl := Some (instantUrl env ''screenshot'')\<rparr>),
                     turndownCalls = []\<rparr>)
         else \<lparr>formatted = Inr (emptyPage\<lparr>screenshotUrl := s_screenshotUrl snapshot\<rparr>),
               turndownCalls = []\<rparr>)
      else if mode = ''pageshot'' then
        (if s_pageshot snapshot \<noteq> None \<and> \<not> truthy (s_pageshotUrl snapshot)
         then (if saveFails env then \<lparr>formatted = Inl SaveFileError, turndownCalls = []\<rparr>
               else \<lparr>formatted = Inr (emptyPage\<lparr>html := s_html snapshot,
                                                 pageshotUrl := Some (instantUrl env ''pageshot'')\<rparr>),
                     turndownCalls = []\<rparr>)
         else \<lparr>formatted = Inr (emptyPage\<lparr>html := s_html snapshot,
                                           pageshotUrl := s_pageshotUrl snapshot\<rparr>),
               turndownCalls = []\<rparr>)
      else if mode = ''html'' then
        \<lparr>formatted = Inr (emptyPage\<lparr>html := s_html snapshot\<rparr>), turndownCalls = []\<rparr>
      else if mode = ''text'' then
        \<lparr>formatted = Inr (emptyPage\<lparr>page_text := s_text snapshot\<rparr>), turndownCalls = []\<rparr>
      else
        case markdownContent env rw mode snapshot nominalUrl of
          Inl err \<Rightarrow> \<lparr>formatted = Inl err, turndownCalls = []\<rparr>
        | Inr st \<Rightarrow>
            \<lparr>formatted = Inr (emptyPage
               \<lparr>title := Some (trim (case orElse (orElse (parsedTitle snapshot) (s_title snapshot))
                                             (Some []) of None \<Rightarrow> [] | Some t \<Rightarrow> t)),
                url := orElse nominalUrl (map_option trim (s_href snapshot)),
                content := Some (trim (case orElse (contentText st) (Some []) of
                                         None \<Rightarrow> [] | Some t \<Rightarrow> t)),
                publishedTime := orElse (parsedPublishedTime snapshot) None\<rparr>),
             turndownCalls = calls st\<rparr>)"





section \<open>The result generator: \<open>fetchSearchResults\<close>\<close>


















section \<open>Properties of the upstream search client\<close>

lemma failed429_iff: "failed429 out \<longleftrightarrow> (\<exists>body. out = Responded 429 body)"
  by (cases out) (auto simp: failed429_def validateStatus_def split: http_body.splits)

lemma succeeded_iff:
  "succeeded out \<longleftrightarrow> (\<exists>status r. out = Responded status (JsonObject r) \<and> 200 \<le> status \<and> status < 300)"
  by (cases out) (auto simp: succeeded_def validateStatus_def split: http_body.splits)










section \<open>Properties of the search cache\<close>

lemma mostRecent_in: "mostRecent e es \<in> set (e # es)"
  by (induction es arbitrary: e) auto

lemma mostRecent_ge_first: "createdAt e \<le> createdAt (mostRecent e es)"
proof (induction es arbitrary: e)
  case Nil
  then show ?case by simp
next
  case (Cons y ys)
  from Cons.IH [of "if createdAt e < createdAt y then y else e"] show ?case
    by (simp split: if_splits)
qed

lemma mostRecent_newest: "x \<in> set (e # es) \<Longrightarrow> createdAt x \<le> createdAt (mostRecent e es)"
proof (induction es arbitrary: e)
  case Nil
  then show ?case by simp
next
  case (Cons y ys)
  from Cons.prems consider "x = e" | "x \<in> set (y # ys)" by auto
  then show ?case
  proof cases
    case 1
    then show ?thesis using mostRecent_ge_first [of e "y # ys"] by simp
  next
    case 2
    then have "x \<in> set ((if createdAt e < createdAt y then y else e) # ys) \<or> (x = y \<and> \<not> createdAt e < createdAt y)"
      by auto
    then show ?thesis
    proof
      assume "x \<in> set ((if createdAt e < createdAt y then y else e) # ys)"
      from Cons.IH [OF this] show ?thesis by simp
    next
      assume xy: "x = y \<and> \<not> createdAt e < createdAt y"
      then have "createdAt y \<le> createdAt e" by simp
      also have "createdAt e \<le> createdAt (mostRecent e ys)" by (rule mostRecent_ge_first)
      finally show ?thesis using xy by simp
    qed
  qed
qed

lemma cacheFound_most_recent:
  "cacheFound collection digest = Some c \<Longrightarrow>
   c \<in> set collection \<and> queryDigest c = digest \<and>
   (\<forall>e \<in> set collection. queryDigest e = digest \<longrightarrow> createdAt e \<le> createdAt c)"
proof -
  assume found: "cacheFound collection digest = Some c"
  then obtain e es where f: "filter (\<lambda>e. queryDigest e = digest) collection = e # es"
    and c: "c = mostRecent e es"
    by (auto simp: cacheFound_def fromFirestoreQuery_def split: list.splits)
  have "c \<in> set (filter (\<lambda>e. queryDigest e = digest) collection)"
    using mostRecent_in [of e es] f c by simp
  moreover have "\<forall>x \<in> set (filter (\<lambda>e. queryDigest e = digest) collection). createdAt x \<le> createdAt c"
    using mostRecent_newest [of _ e es] f c by simp
  ultimately show ?thesis by auto
qed

lemma cacheFound_none:
  "cacheFound collection digest = None \<longleftrightarrow> (\<forall>e \<in> set collection. queryDigest e \<noteq> digest)"
proof -
  have "cacheFound collection digest = None \<longleftrightarrow> filter (\<lambda>e. queryDigest e = digest) collection = []"
    by (simp add: cacheFound_def fromFirestoreQuery_def split: list.splits)
  then show ?thesis by (simp add: filter_empty_conv)
qed

lemma fetchPages_fails: "fst (fetchPages service query) = Inl err \<longleftrightarrow> upstreamFails service query err"
  by (auto simp: fetchPages_def upstreamFails_def split: sum.splits)

lemma fetchPages_calls: "snd (fetchPages service query) \<noteq> []"
  by (auto simp: fetchPages_def split: sum.splits)

lemma cachedWebSearch_hit:
  "cacheFound collection (h query) = Some c \<Longrightarrow> \<not> stale now c \<Longrightarrow>
   cachedWebSearch collection h now nowDate service query False =
     \<lparr>returned = Inr (response c), upstreamCalls = [], saved = []\<rparr>"
  by (auto simp: cachedWebSearch_def cacheFound_def Let_def split: list.splits)

lemma cachedWebSearch_fallback:
  "cacheFound collection (h query) = Some c \<Longrightarrow> upstreamFails service query err \<Longrightarrow>
   returned (cachedWebSearch collection h now nowDate service query False) = Inr (response c)"
  using fetchPages_fails [of service query err]
  by (cases "fetchPages service query")
     (auto simp: cachedWebSearch_def cacheFound_def Let_def split: list.splits sum.splits)

lemma cachedWebSearch_propagates:
  "cacheFound collection (h query) = None \<Longrightarrow> upstreamFails service query err \<Longrightarrow>
   returned (cachedWebSearch collection h now nowDate service query False) = Inl err"
  using fetchPages_fails [of service query err]
  by (cases "fetchPages service query")
     (auto simp: cachedWebSearch_def cacheFound_def Let_def split: list.splits sum.splits)

lemma cachedWebSearch_stale_upstream:
  "cacheFound collection (h query) = Some c \<Longrightarrow> stale now c \<Longrightarrow>
   upstreamCalls (cachedWebSearch collection h now nowDate service query False) =
     snd (fetchPages service query) \<and>
   (fst (fetchPages service query) = Inr r \<longrightarrow>
      returned (cachedWebSearch collection h now nowDate service query False) = Inr r)"
  by (cases "fetchPages service query")
     (auto simp: cachedWebSearch_def cacheFound_def Let_def split: list.splits sum.splits)

text \<open>
  Claim C3. With \<open>noCache = false\<close>: when the most recent record for the query is
  younger than one hour, its response is returned and the search service is not
  called; when the record found is an hour old or older and the upstream search fails,
  the record's response is returned instead of the failure; when no record is found,
  the failure of the upstream search is what the call throws.
\<close>

theorem cachedWebSearch_fresh_hit_and_stale_fallback:
  "(cacheFound collection (h query) = Some c \<and> now - createdAt c < cacheValidMs \<longrightarrow>
      returned (cachedWebSearch collection h now nowDate service query False) = Inr (response c) \<and>
      upstreamCalls (cachedWebSearch collection h now nowDate service query False) = []) \<and>
   (cacheFound collection (h query) = Some c \<and> cacheValidMs \<le> now - createdAt c \<and>
    upstreamFails service query err \<longrightarrow>
      returned (cachedWebSearch collection h now nowDate service query False) = Inr (response c)) \<and>
   (cacheFound collection (h query) = None \<and> upstreamFails service query err \<longrightarrow>
      returned (cachedWebSearch collection h now nowDate service query False) = Inl err)"
proof (intro conjI impI)
  assume a: "cacheFound collection (h query) = Some c \<and> now - createdAt c < cacheValidMs"
  then have "\<not> stale now c" by (simp add: stale_def)
  with a show "returned (cachedWebSearch collection h now nowDate service query False) = Inr (response c)"
    and "upstreamCalls (cachedWebSearch collection h now nowDate service query False) = []"
    by (simp_all add: cachedWebSearch_hit)
next
  assume "cacheFound collection (h query) = Some c \<and> cacheValidMs \<le> now - createdAt c \<and>
    upstreamFails service query err"
  then show "returned (cachedWebSearch collection h now nowDate service query False) = Inr (response c)"
    using cachedWebSearch_fallback [of collection h query c service err now nowDate] by simp
next
  assume "cacheFound collection (h query) = None \<and> upstreamFails service query err"
  then show "returned (cachedWebSearch collection h now nowDate service query False) = Inl err"
    using cachedWebSearch_propagates [of collection h query service err now nowDate] by simp
qed

theorem cachedWebSearch_fresh_hit_and_stale_fallback_witness:
  "cacheFound [exampleEntry] (exampleDigest exampleQuery) = Some exampleEntry \<and>
   1000 - createdAt exampleEntry < cacheValidMs \<and>
   cacheValidMs \<le> 7200000 - createdAt exampleEntry \<and>
   upstreamFails failingService exampleQuery (DownstreamServiceFailureError ''Search failed'') \<and>
   cacheFound [] (exampleDigest exampleQuery) = None \<and>
   returned (cachedWebSearch [exampleEntry] exampleDigest 1000 1000 failingService exampleQuery False)
     = Inr exampleResponse \<and>
   upstreamCalls (cachedWebSearch [exampleEntry] exampleDigest 1000 1000 failingService exampleQuery False)
     = [] \<and>
   returned (cachedWebSearch [exampleEntry] exampleDigest 7200000 7200000 failingService exampleQuery False)
     = Inr exampleResponse \<and>
   returned (cachedWebSearch [] exampleDigest 7200000 7200000 failingService exampleQuery False)
     = Inl (DownstreamServiceFailureError ''Search failed'')"
  using cachedWebSearch_fresh_hit_and_stale_fallback
      [of "[exampleEntry]" exampleDigest exampleQuery exampleEntry 1000 1000 failingService
          "DownstreamServiceFailureError ''Search failed''"]
    cachedWebSearch_fresh_hit_and_stale_fallback
      [of "[exampleEntry]" exampleDigest exampleQuery exampleEntry 7200000 7200000 failingService
          "DownstreamServiceFailureError ''Search failed''"]
    cachedWebSearch_fresh_hit_and_stale_fallback
      [of "[]" exampleDigest exampleQuery exampleEntry 7200000 7200000 failingService
          "DownstreamServiceFailureError ''Search failed''"]
  by (simp add: cacheFound_def fromFirestoreQuery_def exampleEntry_def exampleDigest_def
      exampleQuery_def cacheValidMs_def upstreamFails_def failingService_def)

text \<open>
  Claim C4, as stated, fails: a record older than the retention time that is still in
  the collection is returned as the fallback when the upstream search fails.
\<close>

theorem cachedWebSearch_expired_counterexample:
  "cacheRetentionMs \<le> 691200000 - createdAt exampleEntry \<and>
   returned (cachedWebSearch [exampleEntry] exampleDigest 691200000 691200000 failingService
     exampleQuery False) = Inr (response exampleEntry)"
  by (simp add: cachedWebSearch_def fromFirestoreQuery_def exampleEntry_def exampleDigest_def
      exampleQuery_def cacheValidMs_def cacheRetentionMs_def stale_def fetchPages_def
      failingService_def)

text \<open>
  Claim C4, amended. A record whose age is at least the retention time is never
  returned as a fresh hit: the search service is asked, and when the upstream search
  succeeds its merged response is what the call returns. Such a record, when it is
  still in the collection at the lookup, is returned only as the fallback for a failed
  upstream search.
\<close>

theorem cachedWebSearch_expired_only_fallback:
  "cacheFound collection (h query) = Some c \<and> cacheRetentionMs \<le> now - createdAt c \<longrightarrow>
     upstreamCalls (cachedWebSearch collection h now nowDate service query False) \<noteq> [] \<and>
     (\<forall>r. fst (fetchPages service query) = Inr r \<longrightarrow>
        returned (cachedWebSearch collection h now nowDate service query False) = Inr r) \<and>
     (\<forall>err. upstreamFails service query err \<longrightarrow>
        returned (cachedWebSearch collection h now nowDate service query False) = Inr (response c))"
proof (intro impI conjI allI)
  assume a: "cacheFound collection (h query) = Some c \<and> cacheRetentionMs \<le> now - createdAt c"
  then have st: "stale now c" by (simp add: stale_def cacheRetentionMs_def cacheValidMs_def)
  from a st show "upstreamCalls (cachedWebSearch collection h now nowDate service query False) \<noteq> []"
    by (simp add: cachedWebSearch_stale_upstream fetchPages_calls)
  fix r assume "fst (fetchPages service query) = Inr r"
  with a st show "returned (cachedWebSearch collection h now nowDate service query False) = Inr r"
    by (simp add: cachedWebSearch_stale_upstream)
next
  fix err
  assume "cacheFound collection (h query) = Some c \<and> cacheRetentionMs \<le> now - createdAt c"
    and "upstreamFails service query err"
  then show "returned (cachedWebSearch collection h now nowDate service query False) = Inr (response c)"
    using cachedWebSearch_fallback [of collection h query c service err now nowDate] by simp
qed

theorem cachedWebSearch_expired_only_fallback_witness:
  "cacheFound [exampleEntry] (exampleDigest exampleQuery) = Some exampleEntry \<and>
   cacheRetentionMs \<le> 691200000 - createdAt exampleEntry \<and>
   upstreamFails failingService exampleQuery (DownstreamServiceFailureError ''Search failed'') \<and>
   upstreamCalls (cachedWebSearch [exampleEntry] exampleDigest 691200000 691200000 failingService
     exampleQuery False) = [1] \<and>
   returned (cachedWebSearch [exampleEntry] exampleDigest 691200000 691200000 failingService
     exampleQuery False) = Inr exampleResponse"
  using cachedWebSearch_expired_only_fallback
      [of "[exampleEntry]" exampleDigest exampleQuery exampleEntry 691200000 691200000 failingService]
  by (simp add: cacheFound_def fromFirestoreQuery_def exampleEntry_def exampleDigest_def
      exampleQuery_def cacheValidMs_def cacheRetentionMs_def upstreamFails_def failingService_def
      cachedWebSearch_def stale_def fetchPages_def)

section \<open>Properties of the search handler\<close>

lemma setHeaders_keeps: "headersSent (setHeaders r hs) = headersSent r \<and> sent (setHeaders r hs) = sent r"
  unfolding setHeaders_def
proof (induction hs arbitrary: r)
  case Nil
  then show ?case by simp
next
  case (Cons h hs)
  obtain k v where h: "h = (k, v)" by (cases h)
  show ?case
  proof (cases v)
    case None
    with h Cons.IH [of r] show ?thesis by simp
  next
    case (Some v')
    with h Cons.IH [of "r\<lparr>headersSet := headersSet r @ [(k, v')]\<rparr>"] show ?thesis by simp
  qed
qed

lemma sendResponse_sent:
  "sent (sendResponse r d m) = (if headersSent r then sent r else sent r @ [d])"
  by (simp add: sendResponse_def Let_def setHeaders_keeps split: option.splits)

lemma sendResponse_headersSent:
  "headersSent (sendResponse r d m) = True"
  by (simp add: sendResponse_def Let_def)

lemma sendResponse_noop: "headersSent r \<Longrightarrow> sendResponse r d m = r"
  by (simp add: sendResponse_def)

lemma sentOnce_sendResponse: "sentOnce r \<Longrightarrow> sentOnce (sendResponse r d m)"
  by (simp add: sentOnce_def sendResponse_sent sendResponse_headersSent)

lemma res_clearEarlyReturnTimer [simp]: "res (clearEarlyReturnTimer s) = res s"
  by (simp add: clearEarlyReturnTimer_def split: option.splits timeout_state.splits)

lemma res_setEarlyReturnTimer [simp]: "res (setEarlyReturnTimer t s) = res s"
  by (simp add: setEarlyReturnTimer_def split: option.splits)

lemma lastScrapped_clearEarlyReturnTimer [simp]:
  "lastScrapped (clearEarlyReturnTimer s) = lastScrapped s"
  by (simp add: clearEarlyReturnTimer_def split: option.splits timeout_state.splits)

lemma sentOnce_timerCallback: "sentOnce (res s) \<Longrightarrow> sentOnce (res (timerCallback s))"
  by (cases "lastScrapped s") (simp_all add: timerCallback_def sentOnce_sendResponse)

lemma sentOnce_catchError: "sentOnce (res s) \<Longrightarrow> sentOnce (res (catchError s))"
  by (simp add: catchError_def sentOnce_sendResponse)

lemma sentOnce_step: "sentOnce (res s) \<Longrightarrow> sentOnce (res (step count timeout s ev))"
proof (cases ev)
  case (Yields scrapped)
  assume "sentOnce (res s)"
  with Yields show ?thesis by (simp add: Let_def sentOnce_sendResponse)
next
  case Ends
  assume "sentOnce (res s)"
  with Ends show ?thesis
    by (cases "lastScrapped s") (simp_all add: Let_def sentOnce_sendResponse sentOnce_catchError)
next
  case Throws
  assume "sentOnce (res s)"
  with Throws show ?thesis by (simp add: sentOnce_catchError)
next
  case TimerFires
  assume "sentOnce (res s)"
  with TimerFires show ?thesis by (simp add: sentOnce_timerCallback)
qed

lemma sentOnce_runFrom: "sentOnce (res s) \<Longrightarrow> sentOnce (res (runFrom count timeout s evs))"
  unfolding runFrom_def
  by (induction evs arbitrary: s) (simp_all add: sentOnce_step)

text \<open>
  Claim C10. Whatever the generator and the timeout do, and in whatever order, a run
  of \<open>search\<close> writes at most one body; once the headers have been sent,
  \<open>sendResponse\<close> leaves the response as it is.
\<close>

theorem search_sends_at_most_once:
  "length (sent (res (searchRun count timeout events))) \<le> 1 \<and>
   (headersSent (res (searchRun count timeout events)) \<longrightarrow>
      sendResponse (res (searchRun count timeout events)) data meta =
      res (searchRun count timeout events))"
proof -
  have "sentOnce (res initialState)"
    by (simp add: sentOnce_def initialState_def freshResponse_def)
  then have "sentOnce (res (searchRun count timeout events))"
    unfolding searchRun_def by (rule sentOnce_runFrom)
  then have "length (sent (res (searchRun count timeout events))) \<le> 1"
    by (simp add: sentOnce_def split: if_splits)
  then show ?thesis by (simp add: sendResponse_noop)
qed

theorem search_sends_at_most_once_witness:
  "headersSent (res (searchRun 2 None [Yields [goodPage], TimerFires, Yields [goodPage, goodPage], TimerFires])) \<and>
   sent (res (searchRun 2 None [Yields [goodPage], TimerFires, Yields [goodPage, goodPage], TimerFires]))
     = [Rendered [goodPage]] \<and>
   sendResponse (res (searchRun 2 None [Yields [goodPage], TimerFires, Yields [goodPage, goodPage], TimerFires]))
     (Rendered [goodPage, goodPage]) textPlain
     = res (searchRun 2 None [Yields [goodPage], TimerFires, Yields [goodPage, goodPage], TimerFires])"
  using search_sends_at_most_once [of 2 None "[Yields [goodPage], TimerFires, Yields [goodPage, goodPage], TimerFires]"
      "Rendered [goodPage, goodPage]" textPlain]
  by (simp add: searchRun_def runFrom_def initialState_def freshResponse_def Let_def
      pageQualified_def goodPage_def searchResultsQualified_def setEarlyReturnTimer_def
      clearEarlyReturnTimer_def timerCallback_def sendResponse_def textPlain_def)

lemma earlyReturnDelay_timeoutMs:
  "earlyReturnDelay timeout = (case timeoutMs timeout of Some ms \<Rightarrow> ms | None \<Rightarrow> 15000)"
  by (cases timeout) (simp_all add: earlyReturnDelay_def timeoutMs_def reasonableDelayMs_def)

lemma list_ex_pageQualified: "list_ex pageQualified b \<longleftrightarrow> (\<exists>x \<in> set b. pageQualified x)"
  by (simp add: list_ex_iff)

lemma timers_clearEarlyReturnTimer:
  "setTimeoutCalls (clearEarlyReturnTimer s) = setTimeoutCalls s \<and>
   (earlyReturnTimer (clearEarlyReturnTimer s) = None) = (earlyReturnTimer s = None) \<and>
   earlyReturnTimer (clearEarlyReturnTimer s) \<noteq> Some Pending \<and>
   returnValue (clearEarlyReturnTimer s) = returnValue s"
  by (simp add: clearEarlyReturnTimer_def split: option.splits timeout_state.splits)

lemma timers_timerCallback:
  "setTimeoutCalls (timerCallback s) = setTimeoutCalls s \<and>
   earlyReturnTimer (timerCallback s) = earlyReturnTimer s \<and>
   returnValue (timerCallback s) = returnValue s"
  by (simp add: timerCallback_def split: option.splits)

lemma timers_catchError:
  "setTimeoutCalls (catchError s) = setTimeoutCalls s \<and>
   earlyReturnTimer (catchError s) = earlyReturnTimer s \<and>
   returnValue (catchError s) \<noteq> None"
  by (simp add: catchError_def)

lemma timers_setEarlyReturnTimer:
  "setTimeoutCalls (setEarlyReturnTimer timeout s) =
     (if earlyReturnTimer s = None then setTimeoutCalls s @ [earlyReturnDelay timeout]
      else setTimeoutCalls s) \<and>
   earlyReturnTimer (setEarlyReturnTimer timeout s) \<noteq> None \<and>
   returnValue (setEarlyReturnTimer timeout s) = returnValue s \<and>
   lastScrapped (setEarlyReturnTimer timeout s) = lastScrapped s"
  by (simp add: setEarlyReturnTimer_def split: option.splits)

text \<open>Once the handle is set, no event sets a timeout again.\<close>

lemma armed_step:
  "earlyReturnTimer s \<noteq> None \<Longrightarrow>
   setTimeoutCalls (step count timeout s ev) = setTimeoutCalls s \<and>
   earlyReturnTimer (step count timeout s ev) \<noteq> None"
proof (cases ev)
  case (Yields b)
  assume "earlyReturnTimer s \<noteq> None"
  with Yields show ?thesis
    by (simp add: Let_def timers_clearEarlyReturnTimer timers_setEarlyReturnTimer
        del: not_None_eq)
next
  case Ends
  assume "earlyReturnTimer s \<noteq> None"
  with Ends show ?thesis
    by (cases "lastScrapped s")
       (simp_all add: Let_def timers_clearEarlyReturnTimer timers_catchError del: not_None_eq)
next
  case Throws
  assume "earlyReturnTimer s \<noteq> None"
  with Throws show ?thesis by (simp add: timers_catchError del: not_None_eq)
next
  case TimerFires
  assume "earlyReturnTimer s \<noteq> None"
  with TimerFires show ?thesis by (simp add: timers_timerCallback del: not_None_eq)
qed

lemma armed_runFrom:
  "earlyReturnTimer s \<noteq> None \<Longrightarrow>
   setTimeoutCalls (runFrom count timeout s evs) = setTimeoutCalls s \<and>
   earlyReturnTimer (runFrom count timeout s evs) \<noteq> None"
proof (induction evs arbitrary: s)
  case Nil
  then show ?case by (simp add: runFrom_def)
next
  case (Cons ev evs)
  from armed_step [OF Cons.prems, of count timeout ev]
  have a: "setTimeoutCalls (step count timeout s ev) = setTimeoutCalls s"
    and b: "earlyReturnTimer (step count timeout s ev) \<noteq> None" by simp_all
  from Cons.IH [OF b] a show ?case by (simp add: runFrom_def)
qed

text \<open>Once \<open>search\<close> has returned, no event sets a timeout.\<close>

lemma returned_step:
  "returnValue s \<noteq> None \<Longrightarrow>
   setTimeoutCalls (step count timeout s ev) = setTimeoutCalls s \<and>
   (earlyReturnTimer (step count timeout s ev) = None) = (earlyReturnTimer s = None) \<and>
   returnValue (step count timeout s ev) \<noteq> None"
  by (cases ev) (simp_all add: timers_timerCallback del: not_None_eq)

lemma returned_runFrom:
  "returnValue s \<noteq> None \<Longrightarrow>
   setTimeoutCalls (runFrom count timeout s evs) = setTimeoutCalls s \<and>
   (earlyReturnTimer (runFrom count timeout s evs) = None) = (earlyReturnTimer s = None)"
proof (induction evs arbitrary: s)
  case Nil
  then show ?case by (simp add: runFrom_def)
next
  case (Cons ev evs)
  from returned_step [OF Cons.prems, of count timeout ev]
  have a: "setTimeoutCalls (step count timeout s ev) = setTimeoutCalls s"
    and b: "(earlyReturnTimer (step count timeout s ev) = None) = (earlyReturnTimer s = None)"
    and c: "returnValue (step count timeout s ev) \<noteq> None" by simp_all
  from Cons.IH [OF c] a b show ?case by (simp add: runFrom_def)
qed

text \<open>What a batch does to a running handler.\<close>

lemma yields_step:
  assumes "returnValue s = None"
  shows "returnValue (step count timeout s (Yields b)) =
           (if searchResultsQualified b (Some count) then Some (Rendered b) else None)"
    and "setTimeoutCalls (step count timeout s (Yields b)) =
           (if (\<exists>x \<in> set b. pageQualified x) \<and> earlyReturnTimer s = None
            then setTimeoutCalls s @ [earlyReturnDelay timeout] else setTimeoutCalls s)"
    and "(earlyReturnTimer (step count timeout s (Yields b)) = None) =
           (earlyReturnTimer s = None \<and> \<not> (\<exists>x \<in> set b. pageQualified x))"
    and "lastScrapped (step count timeout s (Yields b)) = Some b"
  using assms
  by (simp_all add: Let_def timers_clearEarlyReturnTimer timers_setEarlyReturnTimer
      list_ex_pageQualified del: not_None_eq)

lemma unarmed_runFrom:
  "earlyReturnTimer s = None \<Longrightarrow> returnValue s = None \<Longrightarrow>
   setTimeoutCalls (runFrom count timeout s evs) =
     setTimeoutCalls s @
       (if \<exists>b \<in> set (taken count evs). \<exists>x \<in> set b. pageQualified x
        then [earlyReturnDelay timeout] else []) \<and>
   (earlyReturnTimer (runFrom count timeout s evs) \<noteq> None) =
     (\<exists>b \<in> set (taken count evs). \<exists>x \<in> set b. pageQualified x)"
proof (induction evs arbitrary: s)
  case Nil
  then show ?case by (simp add: runFrom_def)
next
  case (Cons ev evs)
  let ?s' = "step count timeout s ev"
  have run: "runFrom count timeout s (ev # evs) = runFrom count timeout ?s' evs"
    by (simp add: runFrom_def)
  show ?case
  proof (cases ev)
    case TimerFires
    with Cons.prems have "?s' = s" by simp
    with Cons.IH [OF Cons.prems] run TimerFires show ?thesis by simp
  next
    case Ends
    with Cons.prems have r: "returnValue ?s' \<noteq> None"
      and t: "earlyReturnTimer ?s' = None" and c: "setTimeoutCalls ?s' = setTimeoutCalls s"
      by (cases "lastScrapped s";
          simp add: Let_def timers_clearEarlyReturnTimer timers_catchError del: not_None_eq)+
    from returned_runFrom [OF r, of count timeout evs] t c run Ends show ?thesis by simp
  next
    case Throws
    with Cons.prems have r: "returnValue ?s' \<noteq> None"
      and t: "earlyReturnTimer ?s' = None" and c: "setTimeoutCalls ?s' = setTimeoutCalls s"
      by (simp_all add: timers_catchError del: not_None_eq)
    from returned_runFrom [OF r, of count timeout evs] t c run Throws show ?thesis by simp
  next
    case (Yields b)
    note y = yields_step [OF Cons.prems(2), of count timeout b]
    show ?thesis
    proof (cases "\<exists>x \<in> set b. pageQualified x")
      case True
      with y Cons.prems Yields have t: "earlyReturnTimer ?s' \<noteq> None"
        and c: "setTimeoutCalls ?s' = setTimeoutCalls s @ [earlyReturnDelay timeout]"
        by simp_all
      from armed_runFrom [OF t, of count timeout evs] c run True Yields show ?thesis by simp
    next
      case False
      with y Cons.prems Yields have t: "earlyReturnTimer ?s' = None"
        and c: "setTimeoutCalls ?s' = setTimeoutCalls s"
        by simp_all
      show ?thesis
      proof (cases "searchResultsQualified b (Some count)")
        case True
        with y Yields have r: "returnValue ?s' \<noteq> None" by simp
        from returned_runFrom [OF r, of count timeout evs] t c run True False Yields
        show ?thesis by simp
      next
        case nogate: False
        with y Yields have r: "returnValue ?s' = None" by simp
        from Cons.IH [OF t r] c run nogate False Yields show ?thesis by simp
      qed
    qed
  qed
qed

text \<open>
  Claim C2. A running handler that takes a batch from the generator returns at that
  batch exactly when every page of the batch is qualified (title and content, or
  screenshotUrl, or pageshotUrl, or text, or html, non-empty) and the batch has at
  least \<open>count\<close> pages. It then returns the string form of that batch, has passed it
  to \<open>sendResponse\<close>, and leaves no timeout pending. Otherwise it keeps iterating,
  with the batch as \<open>lastScrapped\<close> and the response untouched.
\<close>

theorem search_returns_at_qualified_batch:
  "returnValue s = None \<Longrightarrow>
   (returnValue (step count timeout s (Yields batch)) \<noteq> None) =
     ((\<forall>x \<in> set batch.
         truthy (title x) \<and> truthy (content x) \<or> truthy (screenshotUrl x) \<or>
         truthy (pageshotUrl x) \<or> truthy (page_text x) \<or> truthy (html x)) \<and>
      count \<le> length batch) \<and>
   (returnValue (step count timeout s (Yields batch)) \<noteq> None \<longrightarrow>
      returnValue (step count timeout s (Yields batch)) = Some (Rendered batch) \<and>
      earlyReturnTimer (step count timeout s (Yields batch)) \<noteq> Some Pending \<and>
      res (step count timeout s (Yields batch)) = sendResponse (res s) (Rendered batch) textPlain) \<and>
   (returnValue (step count timeout s (Yields batch)) = None \<longrightarrow>
      lastScrapped (step count timeout s (Yields batch)) = Some batch \<and>
      res (step count timeout s (Yields batch)) = res s)"
proof -
  assume running: "returnValue s = None"
  have gate: "searchResultsQualified batch (Some count) =
     ((\<forall>x \<in> set batch.
         truthy (title x) \<and> truthy (content x) \<or> truthy (screenshotUrl x) \<or>
         truthy (pageshotUrl x) \<or> truthy (page_text x) \<or> truthy (html x)) \<and>
      count \<le> length batch)"
    by (simp add: searchResultsQualified_def list_all_iff pageQualified_def)
  show ?thesis
  proof (cases "searchResultsQualified batch (Some count)")
    case True
    with running gate show ?thesis
      by (simp add: Let_def timers_clearEarlyReturnTimer timers_setEarlyReturnTimer)
  next
    case False
    with running gate show ?thesis
      by (simp add: Let_def timers_setEarlyReturnTimer)
  qed
qed

theorem search_returns_at_qualified_batch_witness:
  "returnValue initialState = None \<and>
   returnValue (step 2 None initialState (Yields [goodPage, goodPage])) = Some (Rendered [goodPage, goodPage]) \<and>
   returnValue (step 2 None initialState (Yields [goodPage, stubPage])) = None \<and>
   returnValue (step 2 None initialState (Yields [goodPage])) = None \<and>
   lastScrapped (step 2 None initialState (Yields [goodPage])) = Some [goodPage]"
  using search_returns_at_qualified_batch [of initialState 2 None "[goodPage, goodPage]"]
    search_returns_at_qualified_batch [of initialState 2 None "[goodPage, stubPage]"]
    search_returns_at_qualified_batch [of initialState 2 None "[goodPage]"]
  by (simp add: initialState_def goodPage_def stubPage_def)

text \<open>
  Claim C8. In every run of \<open>search\<close>, \<open>setTimeout\<close> is called at most once: it has
  been called exactly when a batch taken from the generator had a qualified page, which
  makes the first such batch the one that arms the timer. The delay is \<open>timeoutMs\<close>
  when the request gave a timeout and 15000 ms otherwise. A timeout handle exists only
  after such a batch, so whenever the timeout comes due and its callback runs, a
  qualified page has been seen before.
\<close>

theorem early_return_timer_armed_once:
  "setTimeoutCalls (searchRun count timeout events) =
     (if \<exists>b \<in> set (taken count events). \<exists>x \<in> set b. pageQualified x
      then [case timeoutMs timeout of Some ms \<Rightarrow> ms | None \<Rightarrow> 15000] else []) \<and>
   (earlyReturnTimer (searchRun count timeout events) \<noteq> None) =
     (\<exists>b \<in> set (taken count events). \<exists>x \<in> set b. pageQualified x) \<and>
   (\<forall>pre post. events = pre @ TimerFires # post \<and>
      earlyReturnTimer (searchRun count timeout pre) = Some Pending \<longrightarrow>
      (\<exists>b \<in> set (taken count pre). \<exists>x \<in> set b. pageQualified x))"
proof -
  have init: "earlyReturnTimer initialState = None" "returnValue initialState = None"
    "setTimeoutCalls initialState = []"
    by (simp_all add: initialState_def)
  have run: "\<And>evs. setTimeoutCalls (searchRun count timeout evs) =
       (if \<exists>b \<in> set (taken count evs). \<exists>x \<in> set b. pageQualified x
        then [earlyReturnDelay timeout] else []) \<and>
     (earlyReturnTimer (searchRun count timeout evs) \<noteq> None) =
       (\<exists>b \<in> set (taken count evs). \<exists>x \<in> set b. pageQualified x)"
    using unarmed_runFrom [OF init(1) init(2), of count timeout] init(3)
    by (simp add: searchRun_def del: not_None_eq)
  have fires: "\<forall>pre post. events = pre @ TimerFires # post \<and>
      earlyReturnTimer (searchRun count timeout pre) = Some Pending \<longrightarrow>
      (\<exists>b \<in> set (taken count pre). \<exists>x \<in> set b. pageQualified x)"
  proof (intro allI impI)
    fix pre post
    assume "events = pre @ TimerFires # post \<and>
      earlyReturnTimer (searchRun count timeout pre) = Some Pending"
    then have "earlyReturnTimer (searchRun count timeout pre) \<noteq> None" by simp
    with run [of pre] show "\<exists>b \<in> set (taken count pre). \<exists>x \<in> set b. pageQualified x"
      by blast
  qed
  from run [of events] fires show ?thesis
    by (simp only: earlyReturnDelay_timeoutMs)
qed

theorem early_return_timer_armed_once_witness:
  "earlyReturnTimer (searchRun 2 (Some 3) [Yields [stubPage], TimerFires, Yields [goodPage]]) = Some Pending \<and>
   pageQualified goodPage \<and>
   setTimeoutCalls (searchRun 2 (Some 3)
     [Yields [stubPage], TimerFires, Yields [goodPage], TimerFires, Yields [goodPage, stubPage]]) = [3000] \<and>
   setTimeoutCalls (searchRun 2 None [Yields [stubPage], TimerFires, Yields [goodPage]]) = [15000] \<and>
   sent (res (searchRun 2 None [Yields [stubPage], TimerFires])) = []"
  using early_return_timer_armed_once [of 2 "Some 3"
      "[Yields [stubPage], TimerFires, Yields [goodPage], TimerFires, Yields [goodPage, stubPage]]"]
    early_return_timer_armed_once [of 2 None "[Yields [stubPage], TimerFires, Yields [goodPage]]"]
  by (simp add: searchRun_def runFrom_def initialState_def freshResponse_def Let_def
      pageQualified_def goodPage_def stubPage_def searchResultsQualified_def
      setEarlyReturnTimer_def clearEarlyReturnTimer_def timerCallback_def sendResponse_def
      textPlain_def timeoutMs_def earlyReturnDelay_def reasonableDelayMs_def)

section \<open>Properties of the reorganisation\<close>












text \<open>
  The hypothesis on the addresses is needed: when one unqualified page object sits in
  two slots, both pass the accept set and the cut drops a qualified page behind them.
\<close>

lemma reOrganizeSearchResults_shared_object:
  "reOrganizeSearchResults [(0, stubPage), (0, stubPage), (1, goodPage)] (Some 2) =
     [stubPage, stubPage]"
  by (simp add: reOrganizeSearchResults_def filtered_def acceptSet_def effectiveTarget_def
      targetResultCount_def pageQualified_def stubPage_def goodPage_def)

section \<open>Properties of the snapshot formatter\<close>

lemma dropWhile_hd: "xs \<noteq> [] \<Longrightarrow> \<not> P (hd xs) \<Longrightarrow> dropWhile P xs = xs"
  by (cases xs) simp_all

lemma hd_dropWhile_not: "dropWhile P xs \<noteq> [] \<Longrightarrow> \<not> P (hd (dropWhile P xs))"
  by (induction xs) (auto split: if_splits)

lemma last_dropWhile: "dropWhile P xs \<noteq> [] \<Longrightarrow> last (dropWhile P xs) = last xs"
  by (induction xs) (auto split: if_splits)

lemma trim_ends:
  assumes "trim s \<noteq> []"
  shows "\<not> isSpace (hd (trim s)) \<and> \<not> isSpace (last (trim s))"
proof -
  let ?t = "dropWhile isSpace s"
  let ?u = "dropWhile isSpace (rev ?t)"
  from assms have u: "?u \<noteq> []" by (simp add: trim_def)
  have t: "?t \<noteq> []"
  proof
    assume "?t = []"
    then have "?u = []" by (simp only: rev.simps dropWhile.simps)
    with u show False by simp
  qed
  have "hd (trim s) = last ?u" using u by (simp add: trim_def hd_rev)
  also have "\<dots> = last (rev ?t)" using u by (rule last_dropWhile)
  also have "\<dots> = hd ?t" using t by (simp add: last_rev)
  finally have "hd (trim s) = hd ?t" .
  moreover have "\<not> isSpace (hd ?t)" using t by (rule hd_dropWhile_not)
  moreover have "last (trim s) = hd ?u" using u by (simp add: trim_def last_rev)
  moreover have "\<not> isSpace (hd ?u)" using u by (rule hd_dropWhile_not)
  ultimately show ?thesis by simp
qed

lemma trim_idem: "trim (trim s) = trim s"
proof (cases "trim s = []")
  case True
  have "trim [] = []" by (simp add: trim_def)
  with True show ?thesis by simp
next
  case False
  from trim_ends [OF False] have h: "\<not> isSpace (hd (trim s))" and l: "\<not> isSpace (last (trim s))"
    by simp_all
  from False h have 1: "dropWhile isSpace (trim s) = trim s" by (rule dropWhile_hd)
  from False have r: "rev (trim s) \<noteq> []" by simp
  from l False have "\<not> isSpace (hd (rev (trim s)))" by (simp add: hd_rev)
  with r have 2: "dropWhile isSpace (rev (trim s)) = rev (trim s)" by (rule dropWhile_hd)
  have "trim (trim s) = rev (dropWhile isSpace (rev (dropWhile isSpace (trim s))))"
    by (simp only: trim_def [of "trim s"])
  also have "\<dots> = trim s" by (simp only: 1 2 rev_rev_ident)
  finally show ?thesis .
qed

lemma runWithRetry_first:
  "rw (calls st) (service, input) = Some md \<Longrightarrow>
   runWithRetry rw service vanilla input post st =
     \<lparr>contentText = Some (post md), calls = calls st @ [(service, input)]\<rparr>"
  by (simp add: runWithRetry_def runTurndown_def)

text \<open>
  In the mode \<open>markdown\<close> the parsed content is not looked at: the main run is the
  first call, with the cleaning rules, over the whole document.
\<close>

lemma formatSnapshot_markdown_mode:
  assumes "\<not> tooLarge snapshot"
    and "rw [] (withPlugins (turndownFor env snapshot nominalUrl False), jsDomElementOfHTML snapshot)
           = Some md"
    and "trim md \<noteq> []" and "\<not> startsWithLt (trim md)" and "\<not> endsWithGt (trim md)"
  shows "turndownCalls (formatSnapshot env rw ''markdown'' snapshot nominalUrl) =
           [(withPlugins (turndownFor env snapshot nominalUrl False), jsDomElementOfHTML snapshot)] \<and>
         (\<exists>page. formatted (formatSnapshot env rw ''markdown'' snapshot nominalUrl) = Inr page \<and>
            content page = Some (trim md))"
proof -
  let ?svc = "withPlugins (turndownFor env snapshot nominalUrl False)"
  let ?st = "\<lparr>contentText = Some (trim md), calls = [(?svc, jsDomElementOfHTML snapshot)]\<rparr>"
  have choose: "chooseInput env rw ''markdown'' snapshot nominalUrl =
      Inr (turndownFor env snapshot nominalUrl False, jsDomElementOfHTML snapshot, False, [])"
    by (simp add: chooseInput_def)
  have st1: "runWithRetry rw ?svc (turndownFor env snapshot nominalUrl False)
               (jsDomElementOfHTML snapshot) trim \<lparr>contentText = Some [], calls = []\<rparr> = ?st"
    using assms(2) by (simp add: runWithRetry_first)
  have md: "markdownContent env rw ''markdown'' snapshot nominalUrl = Inr ?st"
    using assms(1,3,4,5)
    by (simp add: markdownContent_def choose st1 Let_def looksLikeHtml_def ltOrGt_def)
  show ?thesis
    by (simp add: formatSnapshot_def md orElse_def assms(3) trim_idem)
qed





section \<open>Properties of the result generator\<close>














end
